theory Spec2Isabelle
  imports Complex_Main
begin

section \<open>Values exchanged with the transcription service\<close>

text \<open>
  \<^verbatim>\<open>transcribe.py\<close> reads the replies of the service with \<^verbatim>\<open>response.json()\<close>, which
  yields Python values: \<^verbatim>\<open>None\<close>, booleans, integers, floats, strings, lists and
  dictionaries with string keys. A dictionary is an association list, read with
  \<open>map_of\<close>. The value a call of \<^verbatim>\<open>transcribe_audio\<close> returns is such a value too: one
  of its own message strings, or whatever the service sent as the transcription.
\<close>

datatype pyfloat = Finite rat | PosInf | NegInf | NaN

datatype json =
    JNull
  | JBool bool
  | JInt int
  | JFloat pyfloat
  | JStr string
  | JArr "json list"
  | JObj "(string \<times> json) list"

text \<open>Python's truth value of an object, as \<^verbatim>\<open>not job_id\<close> tests it.\<close>

fun truthy :: "json \<Rightarrow> bool" where
  "truthy JNull = False"
| "truthy (JBool b) = b"
| "truthy (JInt i) = (i \<noteq> 0)"
| "truthy (JFloat f) = (f \<noteq> Finite 0)"
| "truthy (JStr s) = (s \<noteq> [])"
| "truthy (JArr xs) = (xs \<noteq> [])"
| "truthy (JObj kvs) = (kvs \<noteq> [])"

text \<open>The name of a value's Python type, as it appears in an \<^verbatim>\<open>AttributeError\<close>.\<close>

fun type_name :: "json \<Rightarrow> string" where
  "type_name JNull = ''NoneType''"
| "type_name (JBool b) = ''bool''"
| "type_name (JInt i) = ''int''"
| "type_name (JFloat f) = ''float''"
| "type_name (JStr s) = ''str''"
| "type_name (JArr xs) = ''list''"
| "type_name (JObj kvs) = ''dict''"

text \<open>
  \<^verbatim>\<open>d.get(key, default)\<close>. Only a dictionary has the method: on any other value Python
  raises \<^verbatim>\<open>AttributeError\<close>, and \<open>Inl\<close> carries the text of the exception.
\<close>

definition py_get :: "json \<Rightarrow> string \<Rightarrow> json \<Rightarrow> string + json" where
  "py_get d key dflt =
     (case d of
        JObj kvs \<Rightarrow> Inr (case map_of kvs key of None \<Rightarrow> dflt | Some v \<Rightarrow> v)
      | _ \<Rightarrow> Inl ([CHR 0x27] @ type_name d @ [CHR 0x27] @ '' object has no attribute ''
                 @ [CHR 0x27] @ ''get'' @ [CHR 0x27]))"

text \<open>Decimal rendering of an integer, as an f-string formats \<^verbatim>\<open>response.status_code\<close>.\<close>

definition digit_char :: "nat \<Rightarrow> char" where
  "digit_char d =
     (if d = 0 then CHR ''0'' else if d = 1 then CHR ''1'' else if d = 2 then CHR ''2''
      else if d = 3 then CHR ''3'' else if d = 4 then CHR ''4'' else if d = 5 then CHR ''5''
      else if d = 6 then CHR ''6'' else if d = 7 then CHR ''7'' else if d = 8 then CHR ''8''
      else CHR ''9'')"

fun str_nat :: "nat \<Rightarrow> string" where
  "str_nat n =
     (if n < 10 then [digit_char n] else str_nat (n div 10) @ [digit_char (n mod 10)])"

definition str_int :: "int \<Rightarrow> string" where
  "str_int i = (if i < 0 then CHR ''-'' # str_nat (nat (- i)) else str_nat (nat i))"

text \<open>
  \<^verbatim>\<open>str(v)\<close> inside an f-string. The rendering of floats, lists and dictionaries is
  Python's \<^verbatim>\<open>repr\<close>, taken as the parameter \<open>fmt\<close>.
\<close>

definition py_str :: "(json \<Rightarrow> string) \<Rightarrow> json \<Rightarrow> string" where
  "py_str fmt v =
     (case v of
        JStr s \<Rightarrow> s
      | JNull \<Rightarrow> ''None''
      | JBool b \<Rightarrow> (if b then ''True'' else ''False'')
      | JInt i \<Rightarrow> str_int i
      | _ \<Rightarrow> fmt v)"

section \<open>The world around one call of \<^verbatim>\<open>transcribe_audio\<close>\<close>

text \<open>
  An HTTP response as the \<^verbatim>\<open>requests\<close> library presents it: the status code, the raw
  text (\<^verbatim>\<open>response.text\<close>, here \<open>resp_text\<close>), and the outcome of \<^verbatim>\<open>response.json()\<close>,
  which either raises (\<open>Inl\<close>, with the text of the exception) or yields the parsed
  value.
\<close>

record response =
  status_code :: int
  resp_text :: string
  json_body :: "string + json"

text \<open>
  The network requests the function issues, recorded in order: the submission
  (bearer token, language code, path of the uploaded file) and a status request
  (job identifier, bearer token).
\<close>

datatype request =
    SubmitPost string string string
  | StatusGet json string

text \<open>
  The environment: the file system (\<^verbatim>\<open>os.path.exists\<close>, \<^verbatim>\<open>open\<close>), the service's answer to
  the submission and to the \<open>k\<close>-th status request (\<open>k\<close> is the value of the attempt
  counter when the request is sent, from 1), and \<^verbatim>\<open>repr\<close>. A call that raises is
  \<open>Inl\<close> with the text of the exception. Sleeping and progress output change
  nothing the function returns and are left out.
\<close>

record env =
  path_exists :: "string \<Rightarrow> bool"
  open_rb :: "string \<Rightarrow> string + unit"
  http_post :: "request \<Rightarrow> string + response"
  http_get :: "nat \<Rightarrow> request \<Rightarrow> string + response"
  py_repr :: "json \<Rightarrow> string"

section \<open>\<^verbatim>\<open>transcribe_audio\<close>\<close>

definition language_codes :: "(string \<times> string) list" where
  "language_codes =
     [(''English'', ''eng''), (''Luganda'', ''lug''), (''Runyankole'', ''nyn''),
      (''Ateso'', ''teo''), (''Lugbara'', ''lgg''), (''Acholi'', ''ach'')]"

definition max_attempts :: nat where
  "max_attempts = 30"

text \<open>The messages the function builds (lines 52, 67, 89, 96, 117, 127, 131, 134).\<close>

definition unsupported_language_msg :: "string \<Rightarrow> string" where
  "unsupported_language_msg language =
     ''Error: Language '' @ [CHR 0x27] @ language @ [CHR 0x27] @ '' is not supported.''"

definition file_missing_msg :: "string \<Rightarrow> string" where
  "file_missing_msg audio_path =
     ''Error: File '' @ [CHR 0x27] @ audio_path @ [CHR 0x27] @ '' does not exist.''"

definition request_failed_msg :: "response \<Rightarrow> string" where
  "request_failed_msg r =
     ''Error: API request failed with status code '' @ str_int (status_code r) @ '': '' @ resp_text r"

definition job_id_missing_msg :: string where
  "job_id_missing_msg = ''Error: Failed to get job ID from API response.''"

definition poll_error_msg :: "response \<Rightarrow> string" where
  "poll_error_msg r = ''Error checking job status: '' @ resp_text r"

definition job_failed_msg :: "string \<Rightarrow> string" where
  "job_failed_msg reason = ''Error: Transcription job failed. Reason: '' @ reason"

definition no_transcription :: string where
  "no_transcription = ''No transcription available''"

definition timeout_msg :: string where
  "timeout_msg = ''Error: Transcription timed out. Please try again later.''"

text \<open>The handler \<^verbatim>\<open>except Exception as e\<close> around the whole request.\<close>

definition caught :: "string \<Rightarrow> json" where
  "caught msg = JStr (''Error during transcription: '' @ msg)"

text \<open>
  One pass of the polling loop after the status request has been sent (lines 116 to
  129): the function returns (\<open>Done\<close>) or the loop goes on (\<open>Continue\<close>).
\<close>

datatype poll_outcome = Done json | Continue

definition check_status :: "env \<Rightarrow> string + response \<Rightarrow> poll_outcome" where
  "check_status e reply =
     (case reply of
        Inl msg \<Rightarrow> Done (caught msg)
      | Inr status_response \<Rightarrow>
          if status_code status_response \<noteq> 200 then Done (JStr (poll_error_msg status_response))
          else
            (case json_body status_response of
               Inl msg \<Rightarrow> Done (caught msg)
             | Inr status_data \<Rightarrow>
                 (case py_get status_data ''status'' JNull of
                    Inl msg \<Rightarrow> Done (caught msg)
                  | Inr status \<Rightarrow>
                      if status = JStr ''completed'' then
                        (case py_get status_data ''results'' (JObj []) of
                           Inl msg \<Rightarrow> Done (caught msg)
                         | Inr results \<Rightarrow>
                             (case py_get results ''transcription'' (JStr no_transcription) of
                                Inl msg \<Rightarrow> Done (caught msg)
                              | Inr transcript \<Rightarrow> Done transcript))
                      else if status = JStr ''failed'' then
                        (case py_get status_data ''error'' (JStr ''Unknown error'') of
                           Inl msg \<Rightarrow> Done (caught msg)
                         | Inr reason \<Rightarrow> Done (JStr (job_failed_msg (py_str (py_repr e) reason))))
                      else Continue)))"

text \<open>
  The loop \<^verbatim>\<open>while attempt < max_attempts\<close> (lines 107 to 131), with the requests sent
  so far as an accumulator.
\<close>

function poll_loop :: "env \<Rightarrow> json \<Rightarrow> string \<Rightarrow> nat \<Rightarrow> request list \<Rightarrow> json \<times> request list" where
  "poll_loop e job_id access_token attempt sent =
     (if attempt < max_attempts then
        (case check_status e (http_get e (attempt + 1) (StatusGet job_id access_token)) of
           Done v \<Rightarrow> (v, sent @ [StatusGet job_id access_token])
         | Continue \<Rightarrow>
             poll_loop e job_id access_token (attempt + 1) (sent @ [StatusGet job_id access_token]))
      else (JStr timeout_msg, sent))"
  by pat_completeness auto
termination
  by (relation "measure (\<lambda>(e, job_id, access_token, attempt, sent). max_attempts - attempt)") auto

text \<open>
  The function itself: the value it returns and the network requests it has issued.
\<close>

definition transcribe_audio :: "env \<Rightarrow> string \<Rightarrow> string \<Rightarrow> string \<Rightarrow> json \<times> request list" where
  "transcribe_audio e audio_path language access_token =
     (case map_of language_codes language of
        None \<Rightarrow> (JStr (unsupported_language_msg language), [])
      | Some lang_code \<Rightarrow>
          if \<not> path_exists e audio_path then (JStr (file_missing_msg audio_path), [])
          else
            (case open_rb e audio_path of
               Inl msg \<Rightarrow> (caught msg, [])
             | Inr audio_file \<Rightarrow>
                 (case http_post e (SubmitPost access_token lang_code audio_path) of
                    Inl msg \<Rightarrow> (caught msg, [SubmitPost access_token lang_code audio_path])
                  | Inr response \<Rightarrow>
                      if status_code response \<noteq> 200 then
                        (JStr (request_failed_msg response),
                         [SubmitPost access_token lang_code audio_path])
                      else
                        (case json_body response of
                           Inl msg \<Rightarrow> (caught msg, [SubmitPost access_token lang_code audio_path])
                         | Inr response_data \<Rightarrow>
                             (case py_get response_data ''id'' JNull of
                                Inl msg \<Rightarrow>
                                  (caught msg, [SubmitPost access_token lang_code audio_path])
                              | Inr job_id \<Rightarrow>
                                  if \<not> truthy job_id then
                                    (JStr job_id_missing_msg,
                                     [SubmitPost access_token lang_code audio_path])
                                  else
                                    poll_loop e job_id access_token 0
                                      [SubmitPost access_token lang_code audio_path])))))"

section \<open>Replies of the service, as the properties below speak of them\<close>

text \<open>
  The submission went through: the language has the code \<open>lang_code\<close>, the file exists
  and opens, and the service answered the POST with status 200 and a dictionary whose
  \<^verbatim>\<open>id\<close> is the (truthy) value \<open>job_id\<close>.
\<close>

definition job_submitted :: "env \<Rightarrow> string \<Rightarrow> string \<Rightarrow> string \<Rightarrow> string \<Rightarrow> json \<Rightarrow> bool" where
  "job_submitted e audio_path language access_token lang_code job_id =
     (map_of language_codes language = Some lang_code \<and> path_exists e audio_path \<and>
      open_rb e audio_path = Inr () \<and>
      (case http_post e (SubmitPost access_token lang_code audio_path) of
         Inl msg \<Rightarrow> False
       | Inr r \<Rightarrow>
           status_code r = 200 \<and>
           (case json_body r of
              Inr (JObj kvs) \<Rightarrow> map_of kvs ''id'' = Some job_id \<and> truthy job_id
            | _ \<Rightarrow> False)))"

text \<open>
  A poll reply with a non-terminal status: transport status 200 and a dictionary whose
  \<^verbatim>\<open>status\<close> is neither \<^verbatim>\<open>"completed"\<close> nor \<^verbatim>\<open>"failed"\<close> (or is absent).
\<close>

definition nonterminal_reply :: "string + response \<Rightarrow> bool" where
  "nonterminal_reply reply =
     (case reply of
        Inl msg \<Rightarrow> False
      | Inr r \<Rightarrow>
          status_code r = 200 \<and>
          (case json_body r of
             Inr (JObj kvs) \<Rightarrow>
               map_of kvs ''status'' \<noteq> Some (JStr ''completed'') \<and>
               map_of kvs ''status'' \<noteq> Some (JStr ''failed'')
           | _ \<Rightarrow> False))"

text \<open>
  A poll reply with transport status 200 and a dictionary whose \<^verbatim>\<open>status\<close> is
  \<^verbatim>\<open>"completed"\<close>.
\<close>

definition completed_body :: "string + response \<Rightarrow> (string \<times> json) list \<Rightarrow> bool" where
  "completed_body reply kvs =
     (case reply of
        Inl msg \<Rightarrow> False
      | Inr r \<Rightarrow>
          status_code r = 200 \<and> json_body r = Inr (JObj kvs) \<and>
          map_of kvs ''status'' = Some (JStr ''completed''))"

text \<open>The value at \<^verbatim>\<open>results.transcription\<close> of a reply's dictionary, if there is one.\<close>

definition transcription_of :: "(string \<times> json) list \<Rightarrow> json option" where
  "transcription_of kvs =
     (case map_of kvs ''results'' of
        Some (JObj rs) \<Rightarrow> map_of rs ''transcription''
      | _ \<Rightarrow> None)"

text \<open>
  The \<^verbatim>\<open>results\<close> of a reply's dictionary are absent, or are themselves a dictionary.
\<close>

definition results_well_formed :: "(string \<times> json) list \<Rightarrow> bool" where
  "results_well_formed kvs =
     (case map_of kvs ''results'' of
        None \<Rightarrow> True
      | Some (JObj rs) \<Rightarrow> True
      | Some _ \<Rightarrow> False)"

text \<open>The status requests among the requests issued.\<close>

fun is_status_request :: "request \<Rightarrow> bool" where
  "is_status_request (StatusGet job_id access_token) = True"
| "is_status_request (SubmitPost access_token lang_code audio_path) = False"

text \<open>
  A service for the scenarios: the file \<^verbatim>\<open>hello.mp3\<close> exists and opens, the submission is
  answered by \<open>post_reply\<close> and the \<open>k\<close>-th status request by \<open>polls k\<close>.
\<close>

definition service :: "(string + response) \<Rightarrow> (nat \<Rightarrow> string + response) \<Rightarrow> env" where
  "service post_reply polls =
     \<lparr>path_exists = (\<lambda>p. p = ''hello.mp3''), open_rb = (\<lambda>p. Inr ()),
      http_post = (\<lambda>q. post_reply), http_get = (\<lambda>k q. polls k), py_repr = (\<lambda>v. [])\<rparr>"

definition ok_response :: "json \<Rightarrow> string + response" where
  "ok_response body = Inr \<lparr>status_code = 200, resp_text = [], json_body = Inr body\<rparr>"

definition accepted :: "string + response" where
  "accepted = ok_response (JObj [(''id'', JStr ''job-1'')])"

definition processing :: "string + response" where
  "processing = ok_response (JObj [(''status'', JStr ''processing'')])"

definition completed :: "json \<Rightarrow> string + response" where
  "completed results = ok_response (JObj [(''status'', JStr ''completed''), (''results'', results)])"

definition unavailable :: "string + response" where
  "unavailable =
     Inr \<lparr>status_code = 503, resp_text = ''Service Unavailable'',
          json_body = Inl ''Expecting value: line 1 column 1 (char 0)''\<rparr>"

section \<open>\<^verbatim>\<open>translate.py\<close>: the phrase table\<close>

text \<open>
  A Python dictionary keeps its keys in insertion order, and the case-insensitive
  search below depends on that order: a dictionary is an association list, read with
  \<open>map_of\<close> and written with \<open>dict_set\<close>, which replaces the value of a key in place
  and appends a new key at the end.
\<close>

type_synonym phrases = "(string \<times> string) list"
type_synonym table = "(string \<times> (string \<times> phrases) list) list"

fun dict_set :: "'k \<Rightarrow> 'v \<Rightarrow> ('k \<times> 'v) list \<Rightarrow> ('k \<times> 'v) list" where
  "dict_set k v [] = [(k, v)]"
| "dict_set k v ((k', v') # d) = (if k' = k then (k', v) # d else (k', v') # dict_set k v d)"

definition languages :: "string list" where
  "languages = [''English'', ''Luganda'', ''Runyankole'', ''Ateso'', ''Lugbara'', ''Acholi'']"

text \<open>
  The dictionary \<^verbatim>\<open>translations\<close> as it is authored (lines 11 to 74), before the reverse
  pairs are added.
\<close>

definition authored_translations :: table where
  "authored_translations =
     [(''English'',
       [(''Luganda'',
         [(''Hello'', ''Oli otya''),
          (''How are you?'', ''Oli otya?''),
          (''Good morning'', ''Wasuze otya''),
          (''Thank you'', ''Weebale''),
          (''Goodbye'', ''Weraba''),
          (''What is your name?'', ''Amanya go gwe ani?''),
          (''My name is'', ''Amanya gange''),
          (''I love you'', ''Nkwagala''),
          (''I am fine'', ''Ndi bulungi''),
          (''Welcome'', ''Tukusanyukidde'')]),
        (''Runyankole'',
         [(''Hello'', ''Agandi''),
          (''How are you?'', ''Oli ota?''),
          (''Good morning'', ''Oraire ota''),
          (''Thank you'', ''Webale''),
          (''Goodbye'', ''Urabeho''),
          (''What is your name?'', ''Nibaiita oha?''),
          (''My name is'', ''Nibanyeta''),
          (''I love you'', ''Ninkukunda''),
          (''I am fine'', ''Ndi kurungi''),
          (''Welcome'', ''Tukushemereirwe'')]),
        (''Ateso'',
         [(''Hello'', ''Yoga''),
          (''How are you?'', ''Ijok bo?''),
          (''Good morning'', ''Ejok akwar''),
          (''Thank you'', ''Eyalama''),
          (''Goodbye'', ''Awaio''),
          (''What is your name?'', ''Arai ekon bo?''),
          (''My name is'', ''Ekon ka''),
          (''I love you'', ''Amina jo''),
          (''I am fine'', ''Ajok''),
          (''Welcome'', ''Aiyalamikin'')]),
        (''Lugbara'',
         [(''Hello'', ''Kzi''),
          (''How are you?'', ''Mi nga ya?''),
          (''Good morning'', ''Muke cua''),
          (''Thank you'', ''Awa'difo''),
          (''Goodbye'', ''Rua pee''),
          (''What is your name?'', ''Mi ru ngoni?''),
          (''My name is'', ''Ma ru''),
          (''I love you'', ''Ma mi nze''),
          (''I am fine'', ''Ma ovu woro''),
          (''Welcome'', ''Mu amvu'')]),
        (''Acholi'',
         [(''Hello'', ''Kopango''),
          (''How are you?'', ''Itye nining?''),
          (''Good morning'', ''Iribedo maber''),
          (''Thank you'', ''Apwoyo''),
          (''Goodbye'', ''Orfoyo''),
          (''What is your name?'', ''Nyingi anga?''),
          (''My name is'', ''Nyinga en''),
          (''I love you'', ''Amari''),
          (''I am fine'', ''Atye maber''),
          (''Welcome'', ''Ibekwano'')])])]"

text \<open>
  What can go wrong while the reverse pairs are added: Python's \<open>KeyError\<close>, for a
  subscript on a missing key, and \<open>RuntimeError\<close>, raised by a dictionary iterator
  when the dictionary it walks has changed size.
\<close>

datatype py_error = KeyError | RuntimeError

text \<open>\<^verbatim>\<open>translations[tgt_lang][src_lang][translation] = phrase\<close> (line 87).\<close>

definition set_phrase :: "string \<Rightarrow> string \<Rightarrow> string \<Rightarrow> string \<Rightarrow> table \<Rightarrow> py_error + table" where
  "set_phrase tgt_lang src_lang translation phrase tr =
     (case map_of tr tgt_lang of
        None \<Rightarrow> Inl KeyError
      | Some by_src \<Rightarrow>
          (case map_of by_src src_lang of
             None \<Rightarrow> Inl KeyError
           | Some d \<Rightarrow>
               Inr (dict_set tgt_lang (dict_set src_lang (dict_set translation phrase d) by_src) tr)))"

text \<open>The innermost loop (lines 86 and 87), over the items of \<^verbatim>\<open>translations[src_lang][tgt_lang]\<close>.\<close>

fun add_phrases :: "string \<Rightarrow> string \<Rightarrow> phrases \<Rightarrow> table \<Rightarrow> py_error + table" where
  "add_phrases tgt_lang src_lang [] tr = Inr tr"
| "add_phrases tgt_lang src_lang ((phrase, translation) # items) tr =
     (case set_phrase tgt_lang src_lang translation phrase tr of
        Inl err \<Rightarrow> Inl err
      | Inr tr' \<Rightarrow> add_phrases tgt_lang src_lang items tr')"

text \<open>
  The same loop for an entry from a language to itself: there \<^verbatim>\<open>translations[src_lang][tgt_lang]\<close>
  is the very dictionary line 87 writes to, so the iterator sees every write. \<open>pos\<close> is
  the position of the iterator and \<open>left\<close> the number of items still to come. Writing
  to a key the dictionary has replaces its value in place; writing to a new key makes
  the dictionary grow, and the iterator raises when it is asked for the next item.
\<close>

fun add_phrases_self :: "string \<Rightarrow> nat \<Rightarrow> nat \<Rightarrow> table \<Rightarrow> py_error + table" where
  "add_phrases_self lang 0 pos tr = Inr tr"
| "add_phrases_self lang (Suc left) pos tr =
     (case map_of tr lang of
        None \<Rightarrow> Inl KeyError
      | Some by_lang \<Rightarrow>
          (case map_of by_lang lang of
             None \<Rightarrow> Inl KeyError
           | Some d \<Rightarrow>
               (case drop pos d of
                  [] \<Rightarrow> Inr tr
                | (phrase, translation) # rest \<Rightarrow>
                    if translation \<in> set (map fst d) then
                      (case set_phrase lang lang translation phrase tr of
                         Inl err \<Rightarrow> Inl err
                       | Inr tr' \<Rightarrow> add_phrases_self lang left (Suc pos) tr')
                    else Inl RuntimeError)))"

text \<open>The body of the loop over the target languages (lines 79 to 87).\<close>

definition reverse_pair :: "string \<Rightarrow> string \<Rightarrow> table \<Rightarrow> py_error + table" where
  "reverse_pair src_lang tgt_lang tr =
     (let tr1 = (if tgt_lang \<notin> set (map fst tr) then dict_set tgt_lang [] tr else tr) in
      case map_of tr1 tgt_lang of
        None \<Rightarrow> Inl KeyError
      | Some by_src \<Rightarrow>
          (let tr2 = (if src_lang \<notin> set (map fst by_src)
                      then dict_set tgt_lang (dict_set src_lang [] by_src) tr1 else tr1) in
           case map_of tr2 src_lang of
             None \<Rightarrow> Inl KeyError
           | Some by_tgt \<Rightarrow>
               (case map_of by_tgt tgt_lang of
                  None \<Rightarrow> Inl KeyError
                | Some items \<Rightarrow>
                    if src_lang = tgt_lang then add_phrases_self src_lang (length items) 0 tr2
                    else add_phrases tgt_lang src_lang items tr2)))"

text \<open>The loop over the target languages of one source language (line 78).\<close>

fun reverse_targets :: "string \<Rightarrow> string list \<Rightarrow> table \<Rightarrow> py_error + table" where
  "reverse_targets src_lang [] tr = Inr tr"
| "reverse_targets src_lang (tgt_lang # tgts) tr =
     (case reverse_pair src_lang tgt_lang tr of
        Inl err \<Rightarrow> Inl err
      | Inr tr' \<Rightarrow> reverse_targets src_lang tgts tr')"

text \<open>
  The loop over the source languages (line 77). Its list is the keys the table had
  before the loop; the keys of \<^verbatim>\<open>translations[src_lang]\<close> are listed when the turn of
  \<open>src_lang\<close> comes.
\<close>

fun reverse_sources :: "string list \<Rightarrow> table \<Rightarrow> py_error + table" where
  "reverse_sources [] tr = Inr tr"
| "reverse_sources (src_lang # srcs) tr =
     (case map_of tr src_lang of
        None \<Rightarrow> Inl KeyError
      | Some by_tgt \<Rightarrow>
          (case reverse_targets src_lang (map fst by_tgt) tr of
             Inl err \<Rightarrow> Inl err
           | Inr tr' \<Rightarrow> reverse_sources srcs tr'))"

definition populate_reverse :: "table \<Rightarrow> py_error + table" where
  "populate_reverse tr = reverse_sources (map fst tr) tr"

section \<open>\<^verbatim>\<open>translate.py\<close>: looking a phrase up\<close>

text \<open>What one request prints: the translation, or that there is none.\<close>

datatype printed = Translation string | NotAvailable

text \<open>
  The case-insensitive search (lines 123 to 127) over the keys of the phrase
  dictionary, stopping at the first match. \<open>lower\<close> is \<^verbatim>\<open>str.lower\<close>.
\<close>

fun find_phrase :: "(string \<Rightarrow> string) \<Rightarrow> phrases \<Rightarrow> string list \<Rightarrow> string \<Rightarrow> py_error + printed" where
  "find_phrase lower d [] text_to_translate = Inr NotAvailable"
| "find_phrase lower d (phrase # rest) text_to_translate =
     (if lower phrase = lower text_to_translate then
        (case map_of d phrase of
           None \<Rightarrow> Inl KeyError
         | Some translation \<Rightarrow> Inr (Translation translation))
      else find_phrase lower d rest text_to_translate)"

text \<open>
  Lines 115 to 130. \<open>phrases_for\<close> is the test
  \<^verbatim>\<open>source_language in translations and target_language in translations[source_language]\<close>
  together with the dictionary it guards.
\<close>

definition phrases_for :: "table \<Rightarrow> string \<Rightarrow> string \<Rightarrow> phrases option" where
  "phrases_for tr source_language target_language =
     (case map_of tr source_language of
        None \<Rightarrow> None
      | Some by_tgt \<Rightarrow> map_of by_tgt target_language)"

definition translate_text :: "(string \<Rightarrow> string) \<Rightarrow> table \<Rightarrow> string \<Rightarrow> string \<Rightarrow> string \<Rightarrow> py_error + printed" where
  "translate_text lower tr source_language target_language text_to_translate =
     (case phrases_for tr source_language target_language of
        None \<Rightarrow> Inr NotAvailable
      | Some d \<Rightarrow>
          (case map_of d text_to_translate of
             Some translation \<Rightarrow> Inr (Translation translation)
           | None \<Rightarrow> find_phrase lower d (map fst d) text_to_translate))"

text \<open>\<^verbatim>\<open>str.lower\<close> on ASCII text, for running the lookup on examples.\<close>

definition ascii_lower :: "string \<Rightarrow> string" where
  "ascii_lower s =
     map (\<lambda>c. case map_of (zip ''ABCDEFGHIJKLMNOPQRSTUVWXYZ'' ''abcdefghijklmnopqrstuvwxyz'') c of
                None \<Rightarrow> c
              | Some l \<Rightarrow> l) s"

text \<open>The entries of a table: source language, target language, phrase, translation.\<close>

definition entries :: "table \<Rightarrow> (string \<times> string \<times> string \<times> string) list" where
  "entries tr =
     concat (map (\<lambda>(src_lang, by_tgt).
       concat (map (\<lambda>(tgt_lang, d).
         map (\<lambda>(phrase, translation). (src_lang, tgt_lang, phrase, translation)) d) by_tgt)) tr)"

text \<open>
  The reverse pairs as the rule \<^verbatim>\<open>reverse[tgt][src][translation] = phrase\<close> states them,
  one dictionary for each pair of languages of the table, for comparison with what
  \<open>populate_reverse\<close> computes.
\<close>

definition reversed_pairs :: "table \<Rightarrow> table" where
  "reversed_pairs tr =
     concat (map (\<lambda>(src_lang, by_tgt).
       map (\<lambda>(tgt_lang, d).
         (tgt_lang, [(src_lang, map (\<lambda>(phrase, translation). (translation, phrase)) d)])) by_tgt) tr)"

section \<open>What one pass of the polling loop does with a reply\<close>

declare poll_loop.simps [simp del]

lemma nonterminal_replyD:
  assumes "nonterminal_reply reply"
  obtains r kvs where "reply = Inr r" "status_code r = 200" "json_body r = Inr (JObj kvs)"
    "map_of kvs ''status'' \<noteq> Some (JStr ''completed'')" "map_of kvs ''status'' \<noteq> Some (JStr ''failed'')"
proof (cases reply)
  case (Inl msg)
  with assms show ?thesis by (simp add: nonterminal_reply_def)
next
  case (Inr r)
  show ?thesis
  proof (cases "json_body r")
    case (Inl msg)
    with assms Inr show ?thesis by (simp add: nonterminal_reply_def)
  next
    case b: (Inr d)
    show ?thesis
      using assms Inr b that by (cases d) (simp_all add: nonterminal_reply_def)
  qed
qed

lemma check_status_nonterminal:
  assumes "nonterminal_reply reply"
  shows "check_status e reply = Continue"
proof -
  from assms obtain r kvs where r: "reply = Inr r" "status_code r = 200" "json_body r = Inr (JObj kvs)"
    "map_of kvs ''status'' \<noteq> Some (JStr ''completed'')" "map_of kvs ''status'' \<noteq> Some (JStr ''failed'')"
    by (rule nonterminal_replyD)
  then show ?thesis
    by (cases "map_of kvs ''status''") (simp_all add: check_status_def py_get_def)
qed


lemma check_status_transport_failure:
  "status_code r \<noteq> 200 \<Longrightarrow> check_status e (Inr r) = Done (JStr (poll_error_msg r))"
  by (simp add: check_status_def)

lemma completed_bodyD:
  assumes "completed_body reply kvs"
  obtains r where "reply = Inr r" "status_code r = 200" "json_body r = Inr (JObj kvs)"
    "map_of kvs ''status'' = Some (JStr ''completed'')"
  using assms by (cases reply) (simp_all add: completed_body_def)

lemma transcription_of_SomeD:
  assumes "transcription_of kvs = Some t"
  obtains rs where "map_of kvs ''results'' = Some (JObj rs)" "map_of rs ''transcription'' = Some t"
proof (cases "map_of kvs ''results''")
  case None
  with assms show ?thesis by (simp add: transcription_of_def)
next
  case (Some v)
  with assms that show ?thesis by (cases v) (simp_all add: transcription_of_def)
qed

lemma check_status_completed:
  assumes "completed_body reply kvs" and "transcription_of kvs = Some t"
  shows "check_status e reply = Done t"
proof -
  from assms(1) obtain r where r: "reply = Inr r" "status_code r = 200"
    "json_body r = Inr (JObj kvs)" "map_of kvs ''status'' = Some (JStr ''completed'')"
    by (rule completed_bodyD)
  from assms(2) obtain rs where rs: "map_of kvs ''results'' = Some (JObj rs)"
    "map_of rs ''transcription'' = Some t"
    by (rule transcription_of_SomeD)
  from r rs show ?thesis by (simp add: check_status_def py_get_def)
qed

lemma check_status_placeholder:
  assumes "completed_body reply kvs" and "results_well_formed kvs"
    and "transcription_of kvs = None"
  shows "check_status e reply = Done (JStr no_transcription)"
proof -
  from assms(1) obtain r where r: "reply = Inr r" "status_code r = 200"
    "json_body r = Inr (JObj kvs)" "map_of kvs ''status'' = Some (JStr ''completed'')"
    by (rule completed_bodyD)
  show ?thesis
  proof (cases "map_of kvs ''results''")
    case None
    with r show ?thesis by (simp add: check_status_def py_get_def)
  next
    case (Some v)
    with assms(2) obtain rs where v: "v = JObj rs"
      by (cases v) (simp_all add: results_well_formed_def)
    with Some assms(3) have "map_of rs ''transcription'' = None"
      by (simp add: transcription_of_def)
    with r Some v show ?thesis by (simp add: check_status_def py_get_def)
  qed
qed

section \<open>The polling loop\<close>

text \<open>Non-terminal replies are skipped, one status request each.\<close>

lemma poll_loop_skip:
  "a + n \<le> max_attempts \<Longrightarrow>
   (\<forall>k. a < k \<and> k \<le> a + n \<longrightarrow> nonterminal_reply (http_get e k (StatusGet job tok))) \<Longrightarrow>
   poll_loop e job tok a sent = poll_loop e job tok (a + n) (sent @ replicate n (StatusGet job tok))"
proof (induction n arbitrary: a sent)
  case 0
  then show ?case by simp
next
  case (Suc n)
  have lt: "a < max_attempts" using Suc.prems(1) by simp
  have "nonterminal_reply (http_get e (a + 1) (StatusGet job tok))"
    using Suc.prems(2) by simp
  then have c: "check_status e (http_get e (a + 1) (StatusGet job tok)) = Continue"
    by (rule check_status_nonterminal)
  have step: "poll_loop e job tok a sent = poll_loop e job tok (a + 1) (sent @ [StatusGet job tok])"
    using lt c by (subst poll_loop.simps) simp
  have "poll_loop e job tok (a + 1) (sent @ [StatusGet job tok]) =
        poll_loop e job tok (a + 1 + n) ((sent @ [StatusGet job tok]) @ replicate n (StatusGet job tok))"
    using Suc.prems by (intro Suc.IH) auto
  with step show ?case by (simp add: replicate_app_Cons_same)
qed

lemma poll_loop_done:
  assumes "a < max_attempts"
    and "check_status e (http_get e (a + 1) (StatusGet job tok)) = Done v"
  shows "poll_loop e job tok a sent = (v, sent @ [StatusGet job tok])"
  using assms by (subst poll_loop.simps) simp

lemma poll_loop_exhausted:
  "poll_loop e job tok max_attempts sent = (JStr timeout_msg, sent)"
  by (subst poll_loop.simps) simp

text \<open>
  Whatever the service answers, the loop only appends status requests to the requests
  already sent, and no more of them than there are attempts left.
\<close>

lemma poll_loop_sent:
  "\<exists>m. m \<le> max_attempts - a \<and> snd (poll_loop e job tok a sent) = sent @ replicate m (StatusGet job tok)"
proof (induction e job tok a sent rule: poll_loop.induct)
  case (1 e job_id access_token attempt sent)
  show ?case
  proof (cases "attempt < max_attempts")
    case False
    then show ?thesis by (subst poll_loop.simps) simp
  next
    case lt: True
    show ?thesis
    proof (cases "check_status e (http_get e (attempt + 1) (StatusGet job_id access_token))")
      case (Done v)
      then have "snd (poll_loop e job_id access_token attempt sent) = sent @ replicate 1 (StatusGet job_id access_token)"
        using lt by (subst poll_loop.simps) simp
      moreover have "1 \<le> max_attempts - attempt" using lt by simp
      ultimately show ?thesis by blast
    next
      case Continue
      from "1.IH" [OF lt Continue] obtain m where
        m: "m \<le> max_attempts - (attempt + 1)"
        "snd (poll_loop e job_id access_token (attempt + 1) (sent @ [StatusGet job_id access_token])) =
           (sent @ [StatusGet job_id access_token]) @ replicate m (StatusGet job_id access_token)"
        by blast
      have "snd (poll_loop e job_id access_token attempt sent) = sent @ replicate (Suc m) (StatusGet job_id access_token)"
        using lt Continue m(2) by (subst poll_loop.simps) simp
      moreover have "Suc m \<le> max_attempts - attempt" using m(1) lt by simp
      ultimately show ?thesis by blast
    qed
  qed
qed

section \<open>From the submission to the polling loop\<close>

lemma job_submittedD:
  assumes "job_submitted e p l tok c job"
  obtains r kvs where "map_of language_codes l = Some c" "path_exists e p" "open_rb e p = Inr ()"
    "http_post e (SubmitPost tok c p) = Inr r" "status_code r = 200"
    "json_body r = Inr (JObj kvs)" "map_of kvs ''id'' = Some job" "truthy job"
proof (cases "http_post e (SubmitPost tok c p)")
  case (Inl msg)
  with assms show ?thesis by (simp add: job_submitted_def)
next
  case (Inr r)
  show ?thesis
  proof (cases "json_body r")
    case (Inl msg)
    with assms Inr show ?thesis by (simp add: job_submitted_def)
  next
    case b: (Inr d)
    show ?thesis
      using assms Inr b that by (cases d) (simp_all add: job_submitted_def)
  qed
qed

lemma transcribe_audio_submitted:
  assumes "job_submitted e p l tok c job"
  shows "transcribe_audio e p l tok = poll_loop e job tok 0 [SubmitPost tok c p]"
proof -
  from assms obtain r kvs where "map_of language_codes l = Some c" "path_exists e p"
    "open_rb e p = Inr ()" "http_post e (SubmitPost tok c p) = Inr r" "status_code r = 200"
    "json_body r = Inr (JObj kvs)" "map_of kvs ''id'' = Some job" "truthy job"
    by (rule job_submittedD)
  then show ?thesis by (simp add: transcribe_audio_def py_get_def)
qed

section \<open>Properties of \<^verbatim>\<open>transcribe_audio\<close>\<close>

text \<open>
  The status requests of a call: at most \<open>max_attempts\<close> of them, and after the
  submission when there is one.
\<close>

lemma poll_loop_status_requests:
  "length (filter is_status_request (snd (poll_loop e job tok 0 [SubmitPost tok c p]))) \<le> max_attempts"
proof -
  obtain m where "m \<le> max_attempts - 0"
    "snd (poll_loop e job tok 0 [SubmitPost tok c p]) = [SubmitPost tok c p] @ replicate m (StatusGet job tok)"
    using poll_loop_sent by blast
  then show ?thesis by simp
qed

lemma transcribe_audio_status_requests:
  "length (filter is_status_request (snd (transcribe_audio e p l tok))) \<le> max_attempts"
  unfolding transcribe_audio_def
  by (simp add: poll_loop_status_requests split: option.split sum.split)

lemma transcribe_audio_posts_first:
  assumes "map_of language_codes language = Some lang_code"
    and "path_exists e audio_path" and "open_rb e audio_path = Inr ()"
  shows "\<exists>rest. snd (transcribe_audio e audio_path language access_token) =
           SubmitPost access_token lang_code audio_path # rest"
proof -
  have "\<exists>rest. snd (poll_loop e job access_token 0 [SubmitPost access_token lang_code audio_path]) =
          SubmitPost access_token lang_code audio_path # rest" for job
    using poll_loop_sent [of 0 e job access_token "[SubmitPost access_token lang_code audio_path]"]
    by auto
  then show ?thesis
    using assms unfolding transcribe_audio_def
    by (simp split: sum.split)
qed

text \<open>What the function returns right after the submission has been answered.\<close>

lemma transcribe_audio_request_failed:
  assumes "map_of language_codes language = Some lang_code"
    and "path_exists e audio_path" and "open_rb e audio_path = Inr ()"
    and "http_post e (SubmitPost access_token lang_code audio_path) = Inr r"
    and "status_code r \<noteq> 200"
  shows "transcribe_audio e audio_path language access_token =
           (JStr (request_failed_msg r), [SubmitPost access_token lang_code audio_path])"
  using assms by (simp add: transcribe_audio_def)

lemma transcribe_audio_job_id_missing:
  assumes "map_of language_codes language = Some lang_code"
    and "path_exists e audio_path" and "open_rb e audio_path = Inr ()"
    and "http_post e (SubmitPost access_token lang_code audio_path) = Inr r"
    and "status_code r = 200"
    and "json_body r = Inr (JObj kvs)"
    and "case map_of kvs ''id'' of None \<Rightarrow> True | Some job_id \<Rightarrow> \<not> truthy job_id"
  shows "transcribe_audio e audio_path language access_token =
           (JStr job_id_missing_msg, [SubmitPost access_token lang_code audio_path])"
proof (cases "map_of kvs ''id''")
  case None
  with assms show ?thesis by (simp add: transcribe_audio_def py_get_def)
next
  case (Some job_id)
  with assms show ?thesis by (simp add: transcribe_audio_def py_get_def)
qed

text \<open>
  C1 (as the code has it). The language-code mapping does contain a code for English,
  \<^verbatim>\<open>eng\<close>: a submission whose target language is English passes the language check
  and, when the file exists and opens, the submission request is issued with that
  code.
\<close>

theorem english_has_code:
  "map_of language_codes ''English'' = Some ''eng'' \<and>
   (path_exists e audio_path \<and> open_rb e audio_path = Inr () \<longrightarrow>
      (\<exists>rest. snd (transcribe_audio e audio_path ''English'' access_token) =
         SubmitPost access_token ''eng'' audio_path # rest))"
proof (intro conjI impI)
  show c: "map_of language_codes ''English'' = Some ''eng''"
    by (simp add: language_codes_def)
  assume "path_exists e audio_path \<and> open_rb e audio_path = Inr ()"
  then show "\<exists>rest. snd (transcribe_audio e audio_path ''English'' access_token) =
         SubmitPost access_token ''eng'' audio_path # rest"
    using transcribe_audio_posts_first [OF c] by blast
qed

theorem english_has_code_witness:
  "map_of language_codes ''English'' = Some ''eng'' \<and>
   (\<exists>rest. snd (transcribe_audio (service accepted (\<lambda>k. processing)) ''hello.mp3'' ''English'' ''token'') =
      SubmitPost ''token'' ''eng'' ''hello.mp3'' # rest)"
  using english_has_code [of "service accepted (\<lambda>k. processing)" "''hello.mp3''" "''token''"]
  by (simp add: service_def)

text \<open>
  The mapping was claimed to have no code for English, and an English submission to
  be rejected locally. On a service that accepts the job and completes it at the
  first poll, the call with target language English returns the transcription.
\<close>

theorem english_submitted_counterexample:
  "map_of language_codes ''English'' = Some ''eng'' \<and>
   transcribe_audio
     (service accepted (\<lambda>k. completed (JObj [(''transcription'', JStr ''hello'')])))
     ''hello.mp3'' ''English'' ''token'' =
   (JStr ''hello'',
    [SubmitPost ''token'' ''eng'' ''hello.mp3'', StatusGet (JStr ''job-1'') ''token'']) \<and>
   fst (transcribe_audio
     (service accepted (\<lambda>k. completed (JObj [(''transcription'', JStr ''hello'')])))
     ''hello.mp3'' ''English'' ''token'') \<noteq> JStr (unsupported_language_msg ''English'')"
  by (simp add: transcribe_audio_def service_def accepted_def completed_def ok_response_def
      language_codes_def py_get_def poll_loop.simps max_attempts_def check_status_def
      unsupported_language_msg_def)

text \<open>
  C2. When the submission went through, \<open>n < 30\<close> poll replies carry a non-terminal
  status and the next one carries status \<^verbatim>\<open>"completed"\<close> with a value \<open>t\<close> at
  \<^verbatim>\<open>results.transcription\<close>, the function returns exactly \<open>t\<close>, after \<open>n + 1\<close>
  status requests.
\<close>

theorem completed_transcription_returned:
  assumes "job_submitted e audio_path language access_token lang_code job_id"
    and "n < 30"
    and "\<forall>k. 1 \<le> k \<and> k \<le> n \<longrightarrow> nonterminal_reply (http_get e k (StatusGet job_id access_token))"
    and "completed_body (http_get e (n + 1) (StatusGet job_id access_token)) kvs"
    and "transcription_of kvs = Some t"
  shows "transcribe_audio e audio_path language access_token =
           (t, SubmitPost access_token lang_code audio_path #
               replicate (n + 1) (StatusGet job_id access_token))"
proof -
  let ?req = "StatusGet job_id access_token"
  let ?post = "SubmitPost access_token lang_code audio_path"
  have "transcribe_audio e audio_path language access_token = poll_loop e job_id access_token 0 [?post]"
    using assms(1) by (rule transcribe_audio_submitted)
  also have "\<dots> = poll_loop e job_id access_token (0 + n) ([?post] @ replicate n ?req)"
    using assms(2,3) by (intro poll_loop_skip) (auto simp: max_attempts_def)
  also have "\<dots> = (t, ([?post] @ replicate n ?req) @ [?req])"
    using assms(2) check_status_completed [OF assms(4,5)]
    by (intro poll_loop_done) (auto simp: max_attempts_def)
  finally show ?thesis by (simp add: replicate_append_same)
qed

text \<open>
  The scenario of the specification: two polls report \<^verbatim>\<open>"processing"\<close>, the third
  reports \<^verbatim>\<open>"completed"\<close> with the transcript \<^verbatim>\<open>"hello"\<close>.
\<close>

theorem completed_transcription_returned_witness:
  "transcribe_audio
     (service accepted (\<lambda>k. if k \<le> 2 then processing else completed (JObj [(''transcription'', JStr ''hello'')])))
     ''hello.mp3'' ''Luganda'' ''token'' =
   (JStr ''hello'',
    [SubmitPost ''token'' ''lug'' ''hello.mp3'', StatusGet (JStr ''job-1'') ''token'',
     StatusGet (JStr ''job-1'') ''token'', StatusGet (JStr ''job-1'') ''token''])"
  using completed_transcription_returned [of
     "service accepted (\<lambda>k. if k \<le> 2 then processing else completed (JObj [(''transcription'', JStr ''hello'')]))"
     "''hello.mp3''" "''Luganda''" "''token''" "''lug''" "JStr ''job-1''" 2
     "[(''status'', JStr ''completed''), (''results'', JObj [(''transcription'', JStr ''hello'')])]"
     "JStr ''hello''"]
  by (simp add: job_submitted_def service_def accepted_def processing_def completed_def
      ok_response_def language_codes_def nonterminal_reply_def completed_body_def
      transcription_of_def numeral_3_eq_3)

text \<open>
  C3. Whatever the environment does, the function issues at most 30 status requests;
  and when the submission went through and all 30 replies carry a non-terminal
  status, it returns the timeout message after exactly 30 status requests. The loop
  always ends: \<open>poll_loop\<close> is a total function, by the measure
  \<open>max_attempts - attempt\<close>.
\<close>

theorem polling_bounded_and_times_out:
  "length (filter is_status_request (snd (transcribe_audio e audio_path language access_token))) \<le> 30 \<and>
   (job_submitted e audio_path language access_token lang_code job_id \<and>
    (\<forall>k. 1 \<le> k \<and> k \<le> 30 \<longrightarrow> nonterminal_reply (http_get e k (StatusGet job_id access_token))) \<longrightarrow>
    transcribe_audio e audio_path language access_token =
      (JStr timeout_msg,
       SubmitPost access_token lang_code audio_path # replicate 30 (StatusGet job_id access_token)))"
proof (intro conjI impI)
  show "length (filter is_status_request (snd (transcribe_audio e audio_path language access_token))) \<le> 30"
    using transcribe_audio_status_requests [of e audio_path language access_token]
    by (simp add: max_attempts_def)
next
  let ?req = "StatusGet job_id access_token"
  let ?post = "SubmitPost access_token lang_code audio_path"
  assume a: "job_submitted e audio_path language access_token lang_code job_id \<and>
    (\<forall>k. 1 \<le> k \<and> k \<le> 30 \<longrightarrow> nonterminal_reply (http_get e k ?req))"
  then have "transcribe_audio e audio_path language access_token = poll_loop e job_id access_token 0 [?post]"
    by (intro transcribe_audio_submitted) simp
  also have "\<dots> = poll_loop e job_id access_token (0 + max_attempts) ([?post] @ replicate max_attempts ?req)"
    using a by (intro poll_loop_skip) (auto simp: max_attempts_def)
  also have "\<dots> = (JStr timeout_msg, [?post] @ replicate max_attempts ?req)"
    by (simp add: poll_loop_exhausted)
  finally show "transcribe_audio e audio_path language access_token =
      (JStr timeout_msg, ?post # replicate 30 ?req)"
    by (simp add: max_attempts_def)
qed

theorem polling_bounded_and_times_out_witness:
  "length (filter is_status_request
     (snd (transcribe_audio (service accepted (\<lambda>k. processing)) ''hello.mp3'' ''Luganda'' ''token''))) \<le> 30 \<and>
   transcribe_audio (service accepted (\<lambda>k. processing)) ''hello.mp3'' ''Luganda'' ''token'' =
     (JStr timeout_msg,
      SubmitPost ''token'' ''lug'' ''hello.mp3'' # replicate 30 (StatusGet (JStr ''job-1'') ''token''))"
  using polling_bounded_and_times_out [of "service accepted (\<lambda>k. processing)"
     "''hello.mp3''" "''Luganda''" "''token''" "''lug''" "JStr ''job-1''"]
  by (simp add: job_submitted_def service_def accepted_def processing_def
      ok_response_def language_codes_def nonterminal_reply_def)

text \<open>
  C4. When the poll after \<open>n < 30\<close> non-terminal replies comes back with a transport
  status other than 200, the function returns the poll-error message with the text of
  that response, and the failed request is the last one issued: it is not retried.
\<close>

theorem poll_transport_failure_stops:
  assumes "job_submitted e audio_path language access_token lang_code job_id"
    and "n < 30"
    and "\<forall>k. 1 \<le> k \<and> k \<le> n \<longrightarrow> nonterminal_reply (http_get e k (StatusGet job_id access_token))"
    and "http_get e (n + 1) (StatusGet job_id access_token) = Inr r"
    and "status_code r \<noteq> 200"
  shows "transcribe_audio e audio_path language access_token =
           (JStr (poll_error_msg r),
            SubmitPost access_token lang_code audio_path #
              replicate (n + 1) (StatusGet job_id access_token))"
proof -
  let ?req = "StatusGet job_id access_token"
  let ?post = "SubmitPost access_token lang_code audio_path"
  have "transcribe_audio e audio_path language access_token = poll_loop e job_id access_token 0 [?post]"
    using assms(1) by (rule transcribe_audio_submitted)
  also have "\<dots> = poll_loop e job_id access_token (0 + n) ([?post] @ replicate n ?req)"
    using assms(2,3) by (intro poll_loop_skip) (auto simp: max_attempts_def)
  also have "\<dots> = (JStr (poll_error_msg r), ([?post] @ replicate n ?req) @ [?req])"
    using assms(2,4) check_status_transport_failure [OF assms(5), of e]
    by (intro poll_loop_done) (auto simp: max_attempts_def)
  finally show ?thesis by (simp add: replicate_append_same)
qed

theorem poll_transport_failure_stops_witness:
  "transcribe_audio (service accepted (\<lambda>k. if k \<le> 1 then processing else unavailable))
     ''hello.mp3'' ''Luganda'' ''token'' =
   (JStr ''Error checking job status: Service Unavailable'',
    [SubmitPost ''token'' ''lug'' ''hello.mp3'', StatusGet (JStr ''job-1'') ''token'',
     StatusGet (JStr ''job-1'') ''token''])"
  using poll_transport_failure_stops [of
     "service accepted (\<lambda>k. if k \<le> 1 then processing else unavailable)"
     "''hello.mp3''" "''Luganda''" "''token''" "''lug''" "JStr ''job-1''" 1
     "\<lparr>status_code = 503, resp_text = ''Service Unavailable'',
       json_body = Inl ''Expecting value: line 1 column 1 (char 0)''\<rparr>"]
  by (simp add: job_submitted_def service_def accepted_def processing_def unavailable_def
      ok_response_def language_codes_def nonterminal_reply_def poll_error_msg_def numeral_2_eq_2)

text \<open>
  C5 (as the code has it). When the reply with status \<^verbatim>\<open>"completed"\<close> has no
  \<^verbatim>\<open>results\<close>, or has \<^verbatim>\<open>results\<close> that are a dictionary without \<^verbatim>\<open>transcription\<close>, the
  function returns the fixed placeholder \<^verbatim>\<open>No transcription available\<close>.
\<close>

theorem missing_transcription_placeholder:
  assumes "job_submitted e audio_path language access_token lang_code job_id"
    and "n < 30"
    and "\<forall>k. 1 \<le> k \<and> k \<le> n \<longrightarrow> nonterminal_reply (http_get e k (StatusGet job_id access_token))"
    and "completed_body (http_get e (n + 1) (StatusGet job_id access_token)) kvs"
    and "results_well_formed kvs"
    and "transcription_of kvs = None"
  shows "transcribe_audio e audio_path language access_token =
           (JStr no_transcription,
            SubmitPost access_token lang_code audio_path #
              replicate (n + 1) (StatusGet job_id access_token))"
proof -
  let ?req = "StatusGet job_id access_token"
  let ?post = "SubmitPost access_token lang_code audio_path"
  have "transcribe_audio e audio_path language access_token = poll_loop e job_id access_token 0 [?post]"
    using assms(1) by (rule transcribe_audio_submitted)
  also have "\<dots> = poll_loop e job_id access_token (0 + n) ([?post] @ replicate n ?req)"
    using assms(2,3) by (intro poll_loop_skip) (auto simp: max_attempts_def)
  also have "\<dots> = (JStr no_transcription, ([?post] @ replicate n ?req) @ [?req])"
    using assms(2) check_status_placeholder [OF assms(4,5,6)]
    by (intro poll_loop_done) (auto simp: max_attempts_def)
  finally show ?thesis by (simp add: replicate_append_same)
qed

theorem missing_transcription_placeholder_witness:
  "transcribe_audio (service accepted (\<lambda>k. completed (JObj []))) ''hello.mp3'' ''Luganda'' ''token'' =
     (JStr ''No transcription available'',
      [SubmitPost ''token'' ''lug'' ''hello.mp3'', StatusGet (JStr ''job-1'') ''token''])"
  using missing_transcription_placeholder [of "service accepted (\<lambda>k. completed (JObj []))"
     "''hello.mp3''" "''Luganda''" "''token''" "''lug''" "JStr ''job-1''" 0
     "[(''status'', JStr ''completed''), (''results'', JObj [])]"]
  by (simp add: job_submitted_def service_def accepted_def completed_def
      ok_response_def language_codes_def completed_body_def results_well_formed_def
      transcription_of_def no_transcription_def)

text \<open>
  The placeholder was claimed for every completed reply without a value at
  \<^verbatim>\<open>results.transcription\<close>. A completed reply whose \<^verbatim>\<open>results\<close> is \<^verbatim>\<open>null\<close> has no
  such value, and there \<^verbatim>\<open>results.get\<close> raises \<^verbatim>\<open>AttributeError\<close>, which the handler
  turns into an error message.
\<close>

theorem completed_null_results_counterexample:
  "completed_body (completed JNull) [(''status'', JStr ''completed''), (''results'', JNull)] \<and>
   transcription_of [(''status'', JStr ''completed''), (''results'', JNull)] = None \<and>
   transcribe_audio (service accepted (\<lambda>k. completed JNull)) ''hello.mp3'' ''Luganda'' ''token'' =
     (caught ([CHR 0x27] @ ''NoneType'' @ [CHR 0x27] @ '' object has no attribute '' @
              [CHR 0x27] @ ''get'' @ [CHR 0x27]),
      [SubmitPost ''token'' ''lug'' ''hello.mp3'', StatusGet (JStr ''job-1'') ''token'']) \<and>
   fst (transcribe_audio (service accepted (\<lambda>k. completed JNull)) ''hello.mp3'' ''Luganda'' ''token'')
     \<noteq> JStr no_transcription"
  by (simp add: completed_body_def completed_def ok_response_def transcription_of_def
      transcribe_audio_def service_def accepted_def language_codes_def py_get_def
      poll_loop.simps max_attempts_def check_status_def caught_def no_transcription_def)

text \<open>
  C6 (as the code has it). When the submission is answered with status 200 and a
  dictionary that lacks a job identifier (no \<^verbatim>\<open>id\<close>, or an \<^verbatim>\<open>id\<close> that Python takes for
  false: \<^verbatim>\<open>null\<close>, the empty string, zero), the function returns the job-id-missing
  message after the one submission request. Whenever a submission is answered with a
  transport status other than 200, the function returns the request-failed message
  with the status code and text of that response, and this differs from the
  job-id-missing result.
\<close>

theorem job_id_missing_distinct:
  assumes "map_of language_codes language = Some lang_code"
    and "path_exists e audio_path" and "open_rb e audio_path = Inr ()"
    and "http_post e (SubmitPost access_token lang_code audio_path) = Inr r"
    and "status_code r = 200"
    and "json_body r = Inr (JObj kvs)"
    and "case map_of kvs ''id'' of None \<Rightarrow> True | Some job_id \<Rightarrow> \<not> truthy job_id"
  shows "transcribe_audio e audio_path language access_token =
           (JStr job_id_missing_msg, [SubmitPost access_token lang_code audio_path]) \<and>
         (map_of language_codes language' = Some lang_code' \<and>
          path_exists e' audio_path' \<and> open_rb e' audio_path' = Inr () \<and>
          http_post e' (SubmitPost access_token' lang_code' audio_path') = Inr r' \<and>
          status_code r' \<noteq> 200 \<longrightarrow>
            transcribe_audio e' audio_path' language' access_token' =
              (JStr (request_failed_msg r'), [SubmitPost access_token' lang_code' audio_path']) \<and>
            fst (transcribe_audio e' audio_path' language' access_token') \<noteq>
              fst (transcribe_audio e audio_path language access_token))"
proof (intro conjI impI)
  show missing: "transcribe_audio e audio_path language access_token =
           (JStr job_id_missing_msg, [SubmitPost access_token lang_code audio_path])"
    using assms by (rule transcribe_audio_job_id_missing)
  assume a: "map_of language_codes language' = Some lang_code' \<and>
          path_exists e' audio_path' \<and> open_rb e' audio_path' = Inr () \<and>
          http_post e' (SubmitPost access_token' lang_code' audio_path') = Inr r' \<and>
          status_code r' \<noteq> 200"
  then show failed: "transcribe_audio e' audio_path' language' access_token' =
              (JStr (request_failed_msg r'), [SubmitPost access_token' lang_code' audio_path'])"
    by (intro transcribe_audio_request_failed) simp_all
  have "request_failed_msg r' \<noteq> job_id_missing_msg"
    by (simp add: job_id_missing_msg_def request_failed_msg_def)
  with missing failed
  show "fst (transcribe_audio e' audio_path' language' access_token') \<noteq>
          fst (transcribe_audio e audio_path language access_token)"
    by simp
qed

theorem job_id_missing_distinct_witness:
  "transcribe_audio (service (ok_response (JObj [(''id'', JNull)])) (\<lambda>k. processing))
     ''hello.mp3'' ''Luganda'' ''token'' =
     (JStr ''Error: Failed to get job ID from API response.'',
      [SubmitPost ''token'' ''lug'' ''hello.mp3'']) \<and>
   transcribe_audio (service unavailable (\<lambda>k. processing)) ''hello.mp3'' ''Luganda'' ''token'' =
     (JStr ''Error: API request failed with status code 503: Service Unavailable'',
      [SubmitPost ''token'' ''lug'' ''hello.mp3'']) \<and>
   fst (transcribe_audio (service unavailable (\<lambda>k. processing)) ''hello.mp3'' ''Luganda'' ''token'') \<noteq>
   fst (transcribe_audio (service (ok_response (JObj [(''id'', JNull)])) (\<lambda>k. processing))
     ''hello.mp3'' ''Luganda'' ''token'')"
  using job_id_missing_distinct [of "''Luganda''" "''lug''"
     "service (ok_response (JObj [(''id'', JNull)])) (\<lambda>k. processing)" "''hello.mp3''" "''token''"
     "\<lparr>status_code = 200, resp_text = [], json_body = Inr (JObj [(''id'', JNull)])\<rparr>"
     "[(''id'', JNull)]"
     "''Luganda''" "''lug''" "service unavailable (\<lambda>k. processing)" "''hello.mp3''" "''token''"
     "\<lparr>status_code = 503, resp_text = ''Service Unavailable'',
       json_body = Inl ''Expecting value: line 1 column 1 (char 0)''\<rparr>"]
  by (simp add: service_def ok_response_def unavailable_def language_codes_def
      job_id_missing_msg_def request_failed_msg_def str_int_def digit_char_def)

text \<open>
  The job-id-missing message was claimed for every response with status 200 whose
  body lacks a job identifier. A body that is a JSON list has none, and there
  \<^verbatim>\<open>response_data.get\<close> raises \<^verbatim>\<open>AttributeError\<close>: the function returns the message of
  the exception handler instead.
\<close>

theorem non_object_body_counterexample:
  "transcribe_audio (service (ok_response (JArr [])) (\<lambda>k. processing)) ''hello.mp3'' ''Luganda'' ''token'' =
     (caught ([CHR 0x27] @ ''list'' @ [CHR 0x27] @ '' object has no attribute '' @
              [CHR 0x27] @ ''get'' @ [CHR 0x27]),
      [SubmitPost ''token'' ''lug'' ''hello.mp3'']) \<and>
   fst (transcribe_audio (service (ok_response (JArr [])) (\<lambda>k. processing))
          ''hello.mp3'' ''Luganda'' ''token'') \<noteq> JStr job_id_missing_msg"
  by (simp add: transcribe_audio_def service_def ok_response_def language_codes_def py_get_def
      caught_def job_id_missing_msg_def)

text \<open>
  C7. For a language name outside the supported set, and for a path that names no
  existing file, the function returns a local error message and issues no network
  request at all.
\<close>

theorem local_errors_send_nothing:
  "(language \<notin> set (map fst language_codes) \<longrightarrow>
      transcribe_audio e audio_path language access_token =
        (JStr (unsupported_language_msg language), [])) \<and>
   (\<not> path_exists e audio_path \<longrightarrow>
      transcribe_audio e audio_path language access_token =
        (JStr (if language \<in> set (map fst language_codes) then file_missing_msg audio_path
               else unsupported_language_msg language), []))"
proof (intro conjI impI)
  assume "language \<notin> set (map fst language_codes)"
  then have "map_of language_codes language = None"
    by (simp add: map_of_eq_None_iff)
  then show "transcribe_audio e audio_path language access_token =
        (JStr (unsupported_language_msg language), [])"
    by (simp add: transcribe_audio_def)
next
  assume missing: "\<not> path_exists e audio_path"
  show "transcribe_audio e audio_path language access_token =
        (JStr (if language \<in> set (map fst language_codes) then file_missing_msg audio_path
               else unsupported_language_msg language), [])"
  proof (cases "map_of language_codes language")
    case None
    then have "language \<notin> set (map fst language_codes)"
      by (simp add: map_of_eq_None_iff)
    with None show ?thesis by (simp add: transcribe_audio_def)
  next
    case (Some c)
    then have "language \<in> set (map fst language_codes)"
      by (metis map_of_eq_None_iff option.distinct(1) set_map)
    with Some missing show ?thesis by (simp add: transcribe_audio_def)
  qed
qed

theorem local_errors_send_nothing_witness:
  "transcribe_audio (service accepted (\<lambda>k. processing)) ''hello.mp3'' ''French'' ''token'' =
     (JStr (unsupported_language_msg ''French''), []) \<and>
   transcribe_audio (service accepted (\<lambda>k. processing)) ''missing.mp3'' ''Luganda'' ''token'' =
     (JStr (file_missing_msg ''missing.mp3''), [])"
  using local_errors_send_nothing [of "''French''" "service accepted (\<lambda>k. processing)"
          "''hello.mp3''" "''token''"]
        local_errors_send_nothing [of "''Luganda''" "service accepted (\<lambda>k. processing)"
          "''missing.mp3''" "''token''"]
  by (simp add: language_codes_def service_def)

section \<open>Properties of the phrase table and of the lookup\<close>

text \<open>
  The reverse pairs the loops compute on the authored table are the ones the rule
  states, appended after the authored entries.
\<close>

lemma populate_reverse_authored:
  "populate_reverse authored_translations =
     Inr (authored_translations @ reversed_pairs authored_translations)"
  by code_simp

lemma populated_keys:
  "map (\<lambda>(lang, by_tgt). (lang, map fst by_tgt))
     (authored_translations @ reversed_pairs authored_translations) =
     [(''English'', [''Luganda'', ''Runyankole'', ''Ateso'', ''Lugbara'', ''Acholi'']),
      (''Luganda'', [''English'']), (''Runyankole'', [''English'']), (''Ateso'', [''English'']),
      (''Lugbara'', [''English'']), (''Acholi'', [''English''])]"
  by code_simp

lemma phrases_for_keys:
  assumes "phrases_for tr src tgt = Some d"
  shows "\<exists>ks. (src, ks) \<in> set (map (\<lambda>(lang, by_tgt). (lang, map fst by_tgt)) tr) \<and> tgt \<in> set ks"
proof -
  from assms obtain by_tgt where a: "map_of tr src = Some by_tgt" "map_of by_tgt tgt = Some d"
    by (auto simp: phrases_for_def split: option.splits)
  from a(1) have "(src, by_tgt) \<in> set tr" by (rule map_of_SomeD)
  then have "(src, map fst by_tgt) \<in> set (map (\<lambda>(lang, by_tgt). (lang, map fst by_tgt)) tr)"
    by force
  moreover from a(2) have "tgt \<in> set (map fst by_tgt)"
    by (metis map_of_SomeD set_zip_leftD zip_map_fst_snd)
  ultimately show ?thesis by blast
qed

lemma no_phrases_without_english:
  assumes "populate_reverse authored_translations = Inr tr"
    and "src \<noteq> ''English''" and "tgt \<noteq> ''English''"
  shows "phrases_for tr src tgt = None"
proof (rule ccontr)
  assume "phrases_for tr src tgt \<noteq> None"
  then obtain d where "phrases_for tr src tgt = Some d" by blast
  then obtain ks where "(src, ks) \<in> set (map (\<lambda>(lang, by_tgt). (lang, map fst by_tgt)) tr)" "tgt \<in> set ks"
    using phrases_for_keys by blast
  moreover have "tr = authored_translations @ reversed_pairs authored_translations"
    using assms(1) by (simp add: populate_reverse_authored)
  ultimately have "(src, ks) \<in> set
     [(''English'', [''Luganda'', ''Runyankole'', ''Ateso'', ''Lugbara'', ''Acholi'']),
      (''Luganda'', [''English'']), (''Runyankole'', [''English'']), (''Ateso'', [''English'']),
      (''Lugbara'', [''English'']), (''Acholi'', [''English''])]"
    by (simp only: populated_keys)
  with \<open>tgt \<in> set ks\<close> show False
    using assms(2,3) by auto
qed

text \<open>
  The case-insensitive search returns the translation of the first phrase, in the
  order of the dictionary, whose lower-cased form is that of the text, and never fails
  with \<open>KeyError\<close>.
\<close>

lemma find_phrase_items:
  "find_phrase lower d (map fst items) txt =
     (case find (\<lambda>(phrase, translation). lower phrase = lower txt) items of
        None \<Rightarrow> Inr NotAvailable
      | Some (phrase, translation) \<Rightarrow>
          (case map_of d phrase of None \<Rightarrow> Inl KeyError | Some v \<Rightarrow> Inr (Translation v)))"
  by (induction items) auto

lemma find_holds: "find P xs = Some x \<Longrightarrow> P x"
  by (induction xs) (auto split: if_splits)

lemma map_of_first_match:
  "find (\<lambda>(phrase, translation). P phrase) d = Some (p, v) \<Longrightarrow> map_of d p = Some v"
  by (induction d) (auto split: if_splits dest: find_holds)

lemma find_phrase_find:
  "find_phrase lower d (map fst d) txt =
     (case find (\<lambda>(phrase, translation). lower phrase = lower txt) d of
        None \<Rightarrow> Inr NotAvailable
      | Some (phrase, translation) \<Rightarrow> Inr (Translation translation))"
proof (cases "find (\<lambda>(phrase, translation). lower phrase = lower txt) d")
  case None
  then show ?thesis by (simp add: find_phrase_items)
next
  case (Some a)
  obtain p v where a: "a = (p, v)" by (cases a)
  with Some have "map_of d p = Some v" using map_of_first_match [of "\<lambda>p. lower p = lower txt" d p v] by simp
  with Some a show ?thesis by (simp add: find_phrase_items)
qed

lemma entries_authored:
  "\<forall>(src, tgt, phrase, translation) \<in> set (entries authored_translations).
       (case phrases_for (authored_translations @ reversed_pairs authored_translations) tgt src of
          None \<Rightarrow> False | Some d \<Rightarrow> map_of d translation = Some phrase)"
  by code_simp

text \<open>
  C8. After the reverse pairs have been added, for every entry of the authored table
  (source, target, phrase, translation), looking the translation up from the target
  language to the source language returns the phrase.
\<close>

theorem reverse_lookup_returns_phrase:
  "\<exists>tr. populate_reverse authored_translations = Inr tr \<and>
     (\<forall>(src, tgt, phrase, translation) \<in> set (entries authored_translations).
        translate_text lower tr tgt src translation = Inr (Translation phrase))"
proof (intro exI conjI)
  show "populate_reverse authored_translations =
          Inr (authored_translations @ reversed_pairs authored_translations)"
    by (rule populate_reverse_authored)
  show "\<forall>(src, tgt, phrase, translation) \<in> set (entries authored_translations).
          translate_text lower (authored_translations @ reversed_pairs authored_translations)
            tgt src translation = Inr (Translation phrase)"
    using entries_authored
    by (auto simp: translate_text_def split: option.splits)
qed

theorem reverse_lookup_returns_phrase_witness:
  "\<exists>tr. populate_reverse authored_translations = Inr tr \<and>
     translate_text ascii_lower tr ''Luganda'' ''English'' ''Weebale'' = Inr (Translation ''Thank you'')"
proof -
  from reverse_lookup_returns_phrase [of ascii_lower] obtain tr where
    tr: "populate_reverse authored_translations = Inr tr"
    and all: "\<forall>(src, tgt, phrase, translation) \<in> set (entries authored_translations).
        translate_text ascii_lower tr tgt src translation = Inr (Translation phrase)"
    by blast
  have "(''English'', ''Luganda'', ''Thank you'', ''Weebale'') \<in> set (entries authored_translations)"
    by code_simp
  with all have "translate_text ascii_lower tr ''Luganda'' ''English'' ''Weebale'' =
      Inr (Translation ''Thank you'')"
    by fastforce
  with tr show ?thesis by blast
qed

text \<open>
  C9. For every table, source language, target language and text: an exact match is
  returned when there is one; only when there is none is the case-insensitive match
  returned (the first in the order of the dictionary); when neither exists, or the
  table has no dictionary for the pair, the translation is reported as not
  available.
\<close>

theorem translate_text_exact_first:
  "(\<forall>d v. phrases_for tr src tgt = Some d \<and> map_of d txt = Some v \<longrightarrow>
      translate_text lower tr src tgt txt = Inr (Translation v)) \<and>
   (\<forall>d p v. phrases_for tr src tgt = Some d \<and> map_of d txt = None \<and>
      find (\<lambda>(phrase, translation). lower phrase = lower txt) d = Some (p, v) \<longrightarrow>
      translate_text lower tr src tgt txt = Inr (Translation v)) \<and>
   (\<forall>d. phrases_for tr src tgt = Some d \<and> map_of d txt = None \<and>
      (\<forall>p \<in> set (map fst d). lower p \<noteq> lower txt) \<longrightarrow>
      translate_text lower tr src tgt txt = Inr NotAvailable) \<and>
   (phrases_for tr src tgt = None \<longrightarrow> translate_text lower tr src tgt txt = Inr NotAvailable)"
proof (intro conjI allI impI)
  fix d v assume "phrases_for tr src tgt = Some d \<and> map_of d txt = Some v"
  then show "translate_text lower tr src tgt txt = Inr (Translation v)"
    by (simp add: translate_text_def)
next
  fix d p v
  assume "phrases_for tr src tgt = Some d \<and> map_of d txt = None \<and>
      find (\<lambda>(phrase, translation). lower phrase = lower txt) d = Some (p, v)"
  then show "translate_text lower tr src tgt txt = Inr (Translation v)"
    by (simp add: translate_text_def find_phrase_find)
next
  fix d
  assume a: "phrases_for tr src tgt = Some d \<and> map_of d txt = None \<and>
      (\<forall>p \<in> set (map fst d). lower p \<noteq> lower txt)"
  then have "find (\<lambda>(phrase, translation). lower phrase = lower txt) d = None"
    by (auto simp: find_None_iff)
  with a show "translate_text lower tr src tgt txt = Inr NotAvailable"
    by (simp add: translate_text_def find_phrase_find)
next
  assume "phrases_for tr src tgt = None"
  then show "translate_text lower tr src tgt txt = Inr NotAvailable"
    by (simp add: translate_text_def)
qed

text \<open>
  A dictionary with both \<^verbatim>\<open>Hello\<close> and \<^verbatim>\<open>hello\<close>: the text \<^verbatim>\<open>hello\<close> gets its exact
  match although \<^verbatim>\<open>Hello\<close> comes first and matches without case.
\<close>

theorem translate_text_exact_first_witness:
  "translate_text ascii_lower
     [(''English'', [(''Luganda'', [(''Hello'', ''Oli otya''), (''hello'', ''oli otya'')])])]
     ''English'' ''Luganda'' ''hello'' = Inr (Translation ''oli otya'') \<and>
   translate_text ascii_lower
     [(''English'', [(''Luganda'', [(''Hello'', ''Oli otya''), (''hello'', ''oli otya'')])])]
     ''English'' ''Luganda'' ''HELLO'' = Inr (Translation ''Oli otya'') \<and>
   translate_text ascii_lower
     [(''English'', [(''Luganda'', [(''Hello'', ''Oli otya''), (''hello'', ''oli otya'')])])]
     ''English'' ''Luganda'' ''Goodbye'' = Inr NotAvailable \<and>
   translate_text ascii_lower
     [(''English'', [(''Luganda'', [(''Hello'', ''Oli otya''), (''hello'', ''oli otya'')])])]
     ''Luganda'' ''English'' ''Oli otya'' = Inr NotAvailable"
  using
    translate_text_exact_first [of
      "[(''English'', [(''Luganda'', [(''Hello'', ''Oli otya''), (''hello'', ''oli otya'')])])]"
      "''English''" "''Luganda''" "''hello''" ascii_lower]
    translate_text_exact_first [of
      "[(''English'', [(''Luganda'', [(''Hello'', ''Oli otya''), (''hello'', ''oli otya'')])])]"
      "''English''" "''Luganda''" "''HELLO''" ascii_lower]
    translate_text_exact_first [of
      "[(''English'', [(''Luganda'', [(''Hello'', ''Oli otya''), (''hello'', ''oli otya'')])])]"
      "''English''" "''Luganda''" "''Goodbye''" ascii_lower]
    translate_text_exact_first [of
      "[(''English'', [(''Luganda'', [(''Hello'', ''Oli otya''), (''hello'', ''oli otya'')])])]"
      "''Luganda''" "''English''" "''Oli otya''" ascii_lower]
  by (simp add: phrases_for_def ascii_lower_def)

text \<open>
  C10. For every pair of distinct languages of the list that are both not English,
  and every text, the lookup reports that the translation is not available: after
  the reverse pairs have been added, every dictionary of the table has English as its
  source or as its target.
\<close>

theorem non_english_pair_not_available:
  assumes "populate_reverse authored_translations = Inr tr"
    and "src \<in> set languages" and "tgt \<in> set languages"
    and "src \<noteq> tgt" and "src \<noteq> ''English''" and "tgt \<noteq> ''English''"
  shows "translate_text lower tr src tgt txt = Inr NotAvailable"
  using no_phrases_without_english [OF assms(1,5,6)] by (simp add: translate_text_def)

theorem non_english_pair_not_available_witness:
  "\<exists>tr. populate_reverse authored_translations = Inr tr \<and>
     translate_text ascii_lower tr ''Luganda'' ''Acholi'' ''Weebale'' = Inr NotAvailable"
  using non_english_pair_not_available [OF populate_reverse_authored,
      of "''Luganda''" "''Acholi''" ascii_lower "''Weebale''"]
    populate_reverse_authored
  by (simp add: languages_def)

end
